theory Spec2Isabelle
  imports Main
begin

section \<open>Amounts\<close>

text \<open>
  All balances and channel values of \<^verbatim>\<open>account.ts\<close> are \<^verbatim>\<open>BigNumber\<close>s of the
  bignumber.js library (arbitrary precision, so no wrap-around), holding whole numbers of
  gwei or wei. They are modelled as \<^typ>\<open>int\<close>. Amounts that arrive as strings (the
  \<^verbatim>\<open>value\<close> of a claim, the \<^verbatim>\<open>amount\<close> of a packet or of \<^verbatim>\<open>sendMoney\<close>) are the
  decimal numerals of integers and are modelled by the integer they denote; strings that
  are no such numeral (\<^verbatim>\<open>"abc"\<close>, \<^verbatim>\<open>"1.5"\<close>, \<^verbatim>\<open>"-0"\<close>) are outside the model.

  bignumber.js stores a number as a sign \<^verbatim>\<open>s\<close>, an exponent and a coefficient, and
  defines
  \<^verbatim>\<open>P.isPositive = function () { return this.s > 0 }\<close> and
  \<^verbatim>\<open>P.isNegative = function () { return this.s < 0 }\<close>.
  The sign of a zero is \<^verbatim>\<open>1\<close> when it is read from \<^verbatim>\<open>0\<close> or \<^verbatim>\<open>"0"\<close> and when it
  is the result of \<^verbatim>\<open>plus\<close>, \<^verbatim>\<open>minus\<close>, \<^verbatim>\<open>times\<close>, \<^verbatim>\<open>BigNumber.min\<close> or
  \<^verbatim>\<open>BigNumber.max\<close> on such numbers under the default rounding mode (which
  \<^verbatim>\<open>account.ts\<close> keeps: it only configures \<^verbatim>\<open>EXPONENTIAL_AT\<close>). So
  \<^verbatim>\<open>isPositive()\<close> is true of zero: it tests the sign, not \<^verbatim>\<open>> 0\<close>.
\<close>

type_synonym BigNumber = int

definition isPositive :: "BigNumber \<Rightarrow> bool" where
  "isPositive x = (0 \<le> x)"

definition isNegative :: "BigNumber \<Rightarrow> bool" where
  "isNegative x = (x < 0)"

text \<open>\<^verbatim>\<open>convert(gwei(x), wei())\<close>: one gwei is \<open>10\<^sup>9\<close> wei.\<close>

definition gwei_to_wei :: "BigNumber \<Rightarrow> BigNumber" where
  "gwei_to_wei x = x * 10 ^ 9"

text \<open>
  \<^verbatim>\<open>convert(wei(x), gwei()).decimalPlaces(0, BigNumber.ROUND_DOWN)\<close>: the quotient by
  \<open>10\<^sup>9\<close> with the fraction dropped; \<^verbatim>\<open>ROUND_DOWN\<close> rounds towards zero.
\<close>

definition wei_to_gwei_round_down :: "BigNumber \<Rightarrow> BigNumber" where
  "wei_to_gwei_round_down x = (if 0 \<le> x then x div 10 ^ 9 else - ((- x) div 10 ^ 9))"

section \<open>Data model\<close>

text \<open>
  \<^verbatim>\<open>PaymentChannel\<close> and \<^verbatim>\<open>ClaimablePaymentChannel\<close> are declared in
  \<^verbatim>\<open>utils/contract\<close>; the fields are the ones \<^verbatim>\<open>account.ts\<close> reads and writes. The
  field \<^verbatim>\<open>value\<close> is named \<open>channelValue\<close> here.
\<close>

record PaymentChannel =
  channelId :: string
  contractAddress :: string
  sender :: string
  receiver :: string
  channelValue :: BigNumber
  disputePeriod :: BigNumber
  disputedUntil :: "BigNumber option"
  spent :: BigNumber
  signature :: "string option"

text \<open>\<^verbatim>\<open>SerializedClaim\<close>, the JSON payload of the \<^verbatim>\<open>machinomy\<close> sub-protocol.\<close>

record SerializedClaim =
  claimChannelId :: string
  claimContractAddress :: string
  claimValue :: BigNumber
  claimSignature :: string

text \<open>
  \<^verbatim>\<open>AccountData\<close> without its two queues: the state cell of a queue is passed to each
  reducer as \<open>cachedChannel\<close> and the reducer returns the new one.
\<close>

record AccountData =
  accountName :: string
  receivableBalance :: BigNumber
  payableBalance :: BigNumber
  payoutAmount :: BigNumber
  ethereumAddress :: "string option"

text \<open>The configuration that an account reads from the plugin (\<^verbatim>\<open>this.master\<close>).\<close>

record Master =
  master_ethereumAddress :: string
  master_contractAddress :: string
  master_minIncomingDisputePeriod :: BigNumber
  master_maxPacketAmount :: BigNumber
  master_maxBalance :: BigNumber

section \<open>Outgoing claims: \<^verbatim>\<open>sendMoney\<close>\<close>

text \<open>
  Modelled from the spec: \<^verbatim>\<open>spentFromChannel\<close> and \<^verbatim>\<open>remainingInChannel\<close> of
  \<^verbatim>\<open>utils/contract\<close>, which is not among the sources. The spec gives
  \<^verbatim>\<open>remainingInChannel = value - spent\<close> and the new claim as \<^verbatim>\<open>spent + increment\<close>.
\<close>

definition spentFromChannel :: "PaymentChannel \<Rightarrow> BigNumber" where
  "spentFromChannel channel = spent channel"

definition remainingInChannel :: "PaymentChannel \<Rightarrow> BigNumber" where
  "remainingInChannel channel = channelValue channel - spent channel"

text \<open>
  \<^verbatim>\<open>signClaim\<close>. The signature of the digest of
  \<^verbatim>\<open>(contractAddress, channelId, value)\<close> under the plugin's private key is a parameter.
\<close>

type_synonym signer = "string \<Rightarrow> string \<Rightarrow> BigNumber \<Rightarrow> string"

definition signClaim :: "signer \<Rightarrow> BigNumber \<Rightarrow> PaymentChannel \<Rightarrow> PaymentChannel" where
  "signClaim sg v cachedChannel =
     cachedChannel\<lparr>spent := v,
       signature := Some (sg (contractAddress cachedChannel) (channelId cachedChannel) v)\<rparr>"

text \<open>
  The reducer that \<^verbatim>\<open>sendMoney\<close> adds to the outgoing queue. The result is the account
  after the reduction, the state the reducer returns (\<open>None\<close> for \<^verbatim>\<open>undefined\<close>), and the
  channel handed to \<^verbatim>\<open>sendClaim\<close>, if any. An absent \<^verbatim>\<open>amount\<close> is \<open>None\<close>.
\<close>

definition sendMoney ::
  "signer \<Rightarrow> BigNumber option \<Rightarrow> AccountData \<Rightarrow> PaymentChannel option
     \<Rightarrow> AccountData \<times> PaymentChannel option \<times> PaymentChannel option" where
  "sendMoney sg amount acc cachedChannel =
     (let amountToSend = (case amount of Some a \<Rightarrow> a | None \<Rightarrow> max 0 (payableBalance acc));
          acc1 = acc\<lparr>payoutAmount := payoutAmount acc + amountToSend\<rparr>;
          settlementBudget = gwei_to_wei (payoutAmount acc1)
      in case cachedChannel of
           None \<Rightarrow> (acc1, None, None)
         | Some ch \<Rightarrow>
             if \<not> isPositive (remainingInChannel ch) then (acc1, Some ch, None)
             else if \<not> isPositive settlementBudget then (acc1, Some ch, None)
             else
               let claimIncrement = min (remainingInChannel ch) settlementBudget;
                   v = spentFromChannel ch + claimIncrement;
                   updatedChannel = signClaim sg v ch;
                   claimIncrementGwei = wei_to_gwei_round_down claimIncrement;
                   acc2 = acc1\<lparr>payableBalance := payableBalance acc1 - claimIncrementGwei\<rparr>;
                   acc3 = acc2\<lparr>payoutAmount := min 0 (payoutAmount acc2 - claimIncrementGwei)\<rparr>
               in (acc3, Some updatedChannel, Some updatedChannel))"

section \<open>Address linking: \<^verbatim>\<open>linkEthereumAddress\<close>\<close>

text \<open>
  What \<^verbatim>\<open>JSON.parse(info.data.toString())\<close> and the destructuring of
  \<^verbatim>\<open>ethereumAddress\<close> give: an exception (caught by the function's own \<^verbatim>\<open>catch\<close>),
  a value that is not a string, or a string.
\<close>

datatype info_payload = InvalidJson | NoAddressString | AddressString string

datatype link_outcome =
  ParseFailed | NoAddressProvided | NotValidAddress | SameAddress | AlreadyLinked | Linked

text \<open>\<^verbatim>\<open>String.prototype.toLowerCase\<close> on the ASCII letters of an address.\<close>

definition lowerChar :: "char \<Rightarrow> char" where
  "lowerChar c =
     (let n = (of_char c :: nat) in if 65 \<le> n \<and> n \<le> 90 then char_of (n + 32) else c)"

definition toLowerCase :: "string \<Rightarrow> string" where
  "toLowerCase s = map lowerChar s"

text \<open>
  JavaScript truthiness of an optional string, as in \<^verbatim>\<open>if (currentAddress)\<close> and
  \<^verbatim>\<open>!cachedChannel.signature\<close>: \<^verbatim>\<open>undefined\<close> and the empty string are falsy.
\<close>

definition truthy :: "string option \<Rightarrow> bool" where
  "truthy s = (case s of None \<Rightarrow> False | Some str \<Rightarrow> str \<noteq> [])"

text \<open>
  \<^verbatim>\<open>Web3.utils.isAddress\<close> is a parameter. The result pairs the account with the branch
  taken (each branch of the source logs a different message).
\<close>

definition linkEthereumAddress ::
  "(string \<Rightarrow> bool) \<Rightarrow> AccountData \<Rightarrow> info_payload \<Rightarrow> AccountData \<times> link_outcome" where
  "linkEthereumAddress isAddress acc info =
     (case info of
        InvalidJson \<Rightarrow> (acc, ParseFailed)
      | NoAddressString \<Rightarrow> (acc, NoAddressProvided)
      | AddressString a \<Rightarrow>
          if \<not> isAddress a then (acc, NotValidAddress)
          else if truthy (ethereumAddress acc) then
            (if toLowerCase (the (ethereumAddress acc)) = toLowerCase a
             then (acc, SameAddress) else (acc, AlreadyLinked))
          else (acc\<lparr>ethereumAddress := Some a\<rparr>, Linked))"

text \<open>A run of \<^verbatim>\<open>info\<close> messages, each handled by \<^verbatim>\<open>linkEthereumAddress\<close>.\<close>

fun linkAll :: "(string \<Rightarrow> bool) \<Rightarrow> AccountData \<Rightarrow> info_payload list \<Rightarrow> AccountData" where
  "linkAll isAddress acc [] = acc"
| "linkAll isAddress acc (info # infos) =
     linkAll isAddress (fst (linkEthereumAddress isAddress acc info)) infos"

section \<open>ILP PREPARE forwarding: the \<^verbatim>\<open>ilp\<close> branch of \<^verbatim>\<open>handleData\<close>\<close>

text \<open>
  \<^verbatim>\<open>handleData\<close> looks for the sub-protocols \<^verbatim>\<open>info\<close>, \<^verbatim>\<open>requestClose\<close>,
  \<^verbatim>\<open>machinomy\<close> and \<^verbatim>\<open>ilp\<close> in this order and handles the first it finds. The
  \<^verbatim>\<open>info\<close> branch is \<^verbatim>\<open>linkEthereumAddress\<close> above, the \<^verbatim>\<open>machinomy\<close> branch queues
  \<^verbatim>\<open>validateClaim\<close> below; this section is the \<^verbatim>\<open>ilp\<close> branch.
\<close>

text \<open>
  What a well-formed ILP packet is to this branch: a FULFILL, a REJECT with its code, or
  another packet (a PREPARE, say). \<^verbatim>\<open>deserializeIlpReply\<close> parses all three and
  throws only on bytes that are no ILP packet; \<^verbatim>\<open>isReject\<close> and \<^verbatim>\<open>isFulfill\<close> then
  both fail on the third, and the bytes are passed back as they came.
\<close>

datatype ilp_packet = IlpFulfill | IlpReject string | IlpOther

text \<open>The two errors the branch throws itself, with their \<^verbatim>\<open>ilpErrorCode\<close>.\<close>

datatype ilp_error = AmountTooLargeError | InsufficientLiquidityError

fun ilpErrorCode :: "ilp_error \<Rightarrow> string" where
  "ilpErrorCode AmountTooLargeError = ''F08''"
| "ilpErrorCode InsufficientLiquidityError = ''T04''"

text \<open>
  What a \<^verbatim>\<open>catch\<close> can receive: \<^verbatim>\<open>null\<close> or \<^verbatim>\<open>undefined\<close>, or a value whose
  \<^verbatim>\<open>ilpErrorCode\<close> can be read (\<open>None\<close> when it has none). The errors of ilp-packet
  and JavaScript's own are of the second kind; their \<^verbatim>\<open>message\<close> is a string and their
  \<^verbatim>\<open>ilpErrorData\<close>, if any, a buffer.
\<close>

datatype thrown_value = ThrownNullish | ThrownObject "string option"

text \<open>
  The \<^verbatim>\<open>dataHandler\<close> returns bytes that are an ILP packet, or returns something that
  \<^verbatim>\<open>deserializeIlpReply\<close> cannot parse, or throws.
\<close>

datatype data_handler_result = Returned ilp_packet | ReturnedUnparsable | Thrown thrown_value

text \<open>
  \<^verbatim>\<open>errorToReject('', err)\<close> of ilp-packet serializes a REJECT whose code is
  \<^verbatim>\<open>err.ilpErrorCode || 'F00'\<close>. It throws itself, so the result is \<open>None\<close>, when
  \<^verbatim>\<open>err\<close> is \<^verbatim>\<open>null\<close> or \<^verbatim>\<open>undefined\<close> (the property cannot be read) and when the
  code is not three bytes long (\<^verbatim>\<open>serializeIlpReject\<close> refuses it).
\<close>

definition errorToReject :: "thrown_value \<Rightarrow> ilp_packet option" where
  "errorToReject err =
     (case err of
        ThrownNullish \<Rightarrow> None
      | ThrownObject code \<Rightarrow>
          (let c = (if truthy code then the code else ''F00'')
           in if length c = 3 then Some (IlpReject c) else None))"

text \<open>The admission checks, up to the assignment of \<^verbatim>\<open>newBalance\<close>.\<close>

definition admitPrepare :: "Master \<Rightarrow> AccountData \<Rightarrow> BigNumber \<Rightarrow> ilp_error + AccountData" where
  "admitPrepare master acc amount =
     (if amount > master_maxPacketAmount master then Inl AmountTooLargeError
      else
        let newBalance = receivableBalance acc + amount
        in if newBalance > master_maxBalance master then Inl InsufficientLiquidityError
           else Inr (acc\<lparr>receivableBalance := newBalance\<rparr>))"

text \<open>
  From \<^verbatim>\<open>await this.dataHandler(ilp.data)\<close> to the end of the \<^verbatim>\<open>try\<close>, with the
  \<^verbatim>\<open>catch\<close>: the account at that point, the packet's amount and what the handler did.
  The second component is the packet sent back under the \<^verbatim>\<open>ilp\<close> sub-protocol, or
  \<open>None\<close> when \<^verbatim>\<open>errorToReject\<close> throws inside the \<^verbatim>\<open>catch\<close>, so that
  \<^verbatim>\<open>handleData\<close> throws and sends nothing back. Bytes that do not parse make
  \<^verbatim>\<open>deserializeIlpReply\<close> throw an error without \<^verbatim>\<open>ilpErrorCode\<close>.
\<close>

definition handleReply ::
  "AccountData \<Rightarrow> BigNumber \<Rightarrow> data_handler_result \<Rightarrow> AccountData \<times> ilp_packet option" where
  "handleReply acc amount r =
     (case r of
        Thrown err \<Rightarrow> (acc, errorToReject err)
      | ReturnedUnparsable \<Rightarrow> (acc, errorToReject (ThrownObject None))
      | Returned (IlpReject code) \<Rightarrow>
          (acc\<lparr>receivableBalance := receivableBalance acc - amount\<rparr>, Some (IlpReject code))
      | Returned IlpFulfill \<Rightarrow> (acc, Some IlpFulfill)
      | Returned IlpOther \<Rightarrow> (acc, Some IlpOther))"

text \<open>
  The whole branch. \<open>prepare\<close> is the amount of the PREPARE, or \<open>None\<close> when
  \<^verbatim>\<open>deserializeIlpPrepare\<close> throws (an error without \<^verbatim>\<open>ilpErrorCode\<close>). The result
  is the account and the packet sent back, as for \<open>handleReply\<close>.
\<close>

definition handleData_ilp ::
  "Master \<Rightarrow> AccountData \<Rightarrow> BigNumber option \<Rightarrow> data_handler_result
     \<Rightarrow> AccountData \<times> ilp_packet option" where
  "handleData_ilp master acc prepare dataHandler =
     (case prepare of
        None \<Rightarrow> (acc, errorToReject (ThrownObject None))
      | Some amount \<Rightarrow>
          (case admitPrepare master acc amount of
             Inl err \<Rightarrow> (acc, errorToReject (ThrownObject (Some (ilpErrorCode err))))
           | Inr acc1 \<Rightarrow> handleReply acc1 amount dataHandler))"

section \<open>Incoming claims: \<^verbatim>\<open>validateClaim\<close>\<close>

text \<open>
  \<^verbatim>\<open>fetchChannel\<close> looks the channel up on the chain: it throws, or gives the channel,
  or \<^verbatim>\<open>undefined\<close> when there is none.
\<close>

datatype fetch_result = FetchThrows | Fetched "PaymentChannel option"

text \<open>
  What \<^verbatim>\<open>validateClaim\<close> awaits or calls but does not define: the lookup on the chain
  (one per attempt, so indexed by the attempt), \<^verbatim>\<open>isValidClaimSignature\<close> of
  \<^verbatim>\<open>utils/contract\<close>, whether \<^verbatim>\<open>_store.load\<close> resolves for a key, and whether the
  plugin's \<^verbatim>\<open>moneyHandler\<close> resolves for an amount.
\<close>

record Env =
  fetchChannel :: "nat \<Rightarrow> string \<Rightarrow> fetch_result"
  isValidClaimSignature :: "SerializedClaim \<Rightarrow> PaymentChannel \<Rightarrow> bool"
  storeLoadResolves :: "string \<Rightarrow> bool"
  moneyHandlerResolves :: "BigNumber \<Rightarrow> bool"

text \<open>
  What a reduction of the incoming queue reads and writes outside the queue's cell: the
  account, the store's \<^verbatim>\<open><channelId>:incoming-channel\<close> keys (each holds an account
  name), the amounts passed to \<^verbatim>\<open>moneyHandler\<close> so far, and whether the watcher runs.
\<close>

record PluginState =
  account :: AccountData
  store :: "string \<Rightarrow> string option"
  moneyHandlerCalls :: "BigNumber list"
  watcher :: bool

text \<open>A reducer that throws leaves the queue's cell as it was; the error says where.\<close>

datatype reducer_error = FetchError | StoreError | MoneyHandlerError | TransactionError

type_synonym reduction = "PluginState \<times> (reducer_error + PaymentChannel option)"

definition channelKey :: "SerializedClaim \<Rightarrow> string" where
  "channelKey claim = claimChannelId claim @ '':incoming-channel''"

text \<open>
  The accounting at the end of \<^verbatim>\<open>validateClaim\<close>, from the computation of
  \<^verbatim>\<open>claimIncrement\<close> on.
\<close>

definition creditClaim ::
  "Env \<Rightarrow> SerializedClaim \<Rightarrow> PaymentChannel option \<Rightarrow> PaymentChannel \<Rightarrow> PluginState
     \<Rightarrow> reduction" where
  "creditClaim env claim cachedChannel updatedChannel st =
     (let claimIncrement = min (claimValue claim) (channelValue updatedChannel)
            - (case cachedChannel of Some cc \<Rightarrow> spent cc | None \<Rightarrow> 0);
          isBestClaim = isPositive claimIncrement
      in if \<not> isBestClaim \<and> cachedChannel \<noteq> None then (st, Inr cachedChannel)
         else
           let amount = wei_to_gwei_round_down claimIncrement;
               st1 = (if isBestClaim
                      then st\<lparr>account := (account st)\<lparr>receivableBalance :=
                                  receivableBalance (account st) - amount\<rparr>,
                              moneyHandlerCalls := moneyHandlerCalls st @ [amount]\<rparr>
                      else st)
           in if isBestClaim \<and> \<not> moneyHandlerResolves env amount then (st1, Inl MoneyHandlerError)
              else (st1\<lparr>watcher := True\<rparr>,
                    Inr (Some (updatedChannel\<lparr>channelId := claimChannelId claim,
                                 contractAddress := claimContractAddress claim,
                                 signature := Some (claimSignature claim),
                                 spent := claimValue claim\<rparr>))))"

text \<open>
  The reducer \<^verbatim>\<open>validateClaim(claim)\<close>, called with \<open>attempts = 0\<close> by the queue and
  with \<open>attempts + 1\<close> by itself after each wait of 500 ms.
\<close>

function validateClaim ::
  "Env \<Rightarrow> Master \<Rightarrow> SerializedClaim \<Rightarrow> PaymentChannel option \<Rightarrow> nat \<Rightarrow> PluginState
     \<Rightarrow> reduction" where
  "validateClaim env master claim cachedChannel attempts st =
     (if attempts > 20 then (st, Inr cachedChannel)
      else
        case (case cachedChannel of
                None \<Rightarrow> fetchChannel env attempts (claimChannelId claim)
              | Some cc \<Rightarrow>
                  (if claimValue claim > channelValue cc
                   then fetchChannel env attempts (claimChannelId claim)
                   else Fetched cachedChannel)) of
          FetchThrows \<Rightarrow> (st, Inl FetchError)
        | Fetched updatedChannel \<Rightarrow>
            (case cachedChannel of
               None \<Rightarrow>
                 (case updatedChannel of
                    None \<Rightarrow> validateClaim env master claim cachedChannel (attempts + 1) st
                  | Some uc \<Rightarrow>
                      if isNegative (claimValue claim) then (st, Inr None)
                      else if toLowerCase (claimContractAddress claim)
                              \<noteq> toLowerCase (master_contractAddress master)
                        then (st, Inr None)
                      else if \<not> isValidClaimSignature env claim uc then (st, Inr None)
                      else if toLowerCase (receiver uc)
                              \<noteq> toLowerCase (master_ethereumAddress master)
                        then (st, Inr None)
                      else if \<not> (disputePeriod uc \<ge> master_minIncomingDisputePeriod master)
                        then (st, Inr None)
                      else if \<not> storeLoadResolves env (channelKey claim)
                        then (st, Inl StoreError)
                      else
                        (case store st (channelKey claim) of
                           Some linkedAccount \<Rightarrow> (st, Inr None)
                         | None \<Rightarrow>
                             creditClaim env claim cachedChannel uc
                               (st\<lparr>store := (store st)(channelKey claim
                                     \<mapsto> accountName (account st))\<rparr>)))
             | Some cc \<Rightarrow>
                 (case updatedChannel of
                    None \<Rightarrow> (st, Inr cachedChannel)
                  | Some uc \<Rightarrow>
                      if \<not> (channelValue uc \<ge> claimValue claim)
                        then validateClaim env master claim cachedChannel (attempts + 1) st
                      else if claimChannelId claim \<noteq> channelId cc then (st, Inr cachedChannel)
                      else if \<not> isValidClaimSignature env claim uc then (st, Inr cachedChannel)
                      else creditClaim env claim cachedChannel uc st)))"
  by pat_completeness auto
termination
  by (relation "measure (\<lambda>(env, master, claim, cachedChannel, attempts, st). 21 - attempts)") auto

declare validateClaim.simps [simp del]

section \<open>Claiming the incoming channel: \<^verbatim>\<open>claimIfProfitable\<close>\<close>

datatype tx_outcome = TxConfirmed | TxReverted | TxFailed

text \<open>
  What \<^verbatim>\<open>claimIfProfitable\<close> calls but does not define, all of \<^verbatim>\<open>utils/contract\<close> or
  the chain: \<^verbatim>\<open>updateChannel\<close> (the cached channel refreshed from the chain),
  \<^verbatim>\<open>isDisputed\<close>, the fee that \<^verbatim>\<open>prepareTransaction\<close> estimates (\<open>None\<close> when it
  throws), what becomes of the transaction once sent, and the lookups of
  \<^verbatim>\<open>refreshChannel\<close>, one per attempt.
\<close>

record ClaimEnv =
  updateChannel :: "PaymentChannel \<Rightarrow> fetch_result"
  isDisputed :: "PaymentChannel \<Rightarrow> bool"
  prepareTransaction :: "PaymentChannel \<Rightarrow> BigNumber option"
  sendTransaction :: "PaymentChannel \<Rightarrow> tx_outcome"
  refetchChannel :: "nat \<Rightarrow> fetch_result"

text \<open>The inner \<^verbatim>\<open>refreshChannel\<close>: waits until the chain no longer has the channel.\<close>

function refreshChannel ::
  "ClaimEnv \<Rightarrow> PaymentChannel \<Rightarrow> nat \<Rightarrow> reducer_error + PaymentChannel option" where
  "refreshChannel env updatedChannel attempts =
     (if attempts > 20 then Inr (Some updatedChannel)
      else
        (case refetchChannel env attempts of
           FetchThrows \<Rightarrow> Inl FetchError
         | Fetched None \<Rightarrow> Inr None
         | Fetched (Some c) \<Rightarrow> refreshChannel env updatedChannel (attempts + 1)))"
  by pat_completeness auto
termination
  by (relation "measure (\<lambda>(env, updatedChannel, attempts). 21 - attempts)") auto

declare refreshChannel.simps [simp del]

text \<open>
  The reducer of \<^verbatim>\<open>claimIfProfitable\<close>. \<open>authorize\<close> is \<open>None\<close> when the callback is
  not given; otherwise it tells whether the callback resolves. The result says whether
  the claim transaction was sent, and what the reducer returns.
\<close>

definition claimIfProfitable ::
  "ClaimEnv \<Rightarrow> bool \<Rightarrow> (PaymentChannel \<Rightarrow> BigNumber \<Rightarrow> bool) option \<Rightarrow> PaymentChannel option
     \<Rightarrow> bool \<times> (reducer_error + PaymentChannel option)" where
  "claimIfProfitable env requireDisputed authorize cachedChannel =
     (case cachedChannel of
        None \<Rightarrow> (False, Inr cachedChannel)
      | Some cc \<Rightarrow>
          if \<not> truthy (signature cc) then (False, Inr cachedChannel)
          else
            (case updateChannel env cc of
               FetchThrows \<Rightarrow> (False, Inl FetchError)
             | Fetched None \<Rightarrow> (False, Inr None)
             | Fetched (Some updatedChannel) \<Rightarrow>
                 if requireDisputed \<and> \<not> isDisputed env updatedChannel
                 then (False, Inr (Some updatedChannel))
                 else
                   (case prepareTransaction env updatedChannel of
                      None \<Rightarrow> (False, Inl TransactionError)
                    | Some txFee \<Rightarrow>
                        if (case authorize of
                              Some auth \<Rightarrow> \<not> auth updatedChannel txFee
                            | None \<Rightarrow> txFee \<ge> spent updatedChannel)
                        then (False, Inr (Some updatedChannel))
                        else
                          (case sendTransaction env updatedChannel of
                             TxConfirmed \<Rightarrow> (True, refreshChannel env updatedChannel 0)
                           | TxReverted \<Rightarrow> (True, Inl TransactionError)
                           | TxFailed \<Rightarrow> (True, Inl TransactionError)))))"

section \<open>Concrete inputs\<close>

text \<open>Small accounts, channels and environments on which the theorems below are run.\<close>

definition ex_signer :: signer where
  "ex_signer c i v = ''0xsigned''"

definition ex_account :: AccountData where
  "ex_account = \<lparr>accountName = ''bob'', receivableBalance = 0, payableBalance = 0,
     payoutAmount = 0, ethereumAddress = None\<rparr>"

definition ex_channel :: PaymentChannel where
  "ex_channel = \<lparr>channelId = ''0x01'', contractAddress = ''0xC0'', sender = ''0xAA'',
     receiver = ''0xBb'', channelValue = 2500000000, disputePeriod = 100,
     disputedUntil = None, spent = 1000000000, signature = Some ''0xold''\<rparr>"

definition ex_master :: Master where
  "ex_master = \<lparr>master_ethereumAddress = ''0xbB'', master_contractAddress = ''0xc0'',
     master_minIncomingDisputePeriod = 40, master_maxPacketAmount = 10,
     master_maxBalance = 1000\<rparr>"

definition ex_state :: PluginState where
  "ex_state = \<lparr>account = ex_account, store = Map.empty, moneyHandlerCalls = [],
     watcher = False\<rparr>"

definition ex_state_linked :: PluginState where
  "ex_state_linked = \<lparr>account = ex_account,
     store = [''0x01:incoming-channel'' \<mapsto> ''alice''], moneyHandlerCalls = [],
     watcher = False\<rparr>"

definition ex_env :: Env where
  "ex_env = \<lparr>fetchChannel = (\<lambda>attempt cid. Fetched (Some (ex_channel\<lparr>spent := 0, signature := None\<rparr>))),
     isValidClaimSignature = (\<lambda>claim channel. True),
     storeLoadResolves = (\<lambda>key. True),
     moneyHandlerResolves = (\<lambda>amount. True)\<rparr>"

definition ex_claim :: "BigNumber \<Rightarrow> SerializedClaim" where
  "ex_claim v = \<lparr>claimChannelId = ''0x01'', claimContractAddress = ''0xC0'',
     claimValue = v, claimSignature = ''0xold''\<rparr>"

definition ex_isAddress :: "string \<Rightarrow> bool" where
  "ex_isAddress a = (length a = 4)"

definition ex_claim_env :: ClaimEnv where
  "ex_claim_env = \<lparr>updateChannel = (\<lambda>c. Fetched (Some (c\<lparr>channelValue := 5000000000\<rparr>))),
     isDisputed = (\<lambda>c. False),
     prepareTransaction = (\<lambda>c. Some 200000),
     sendTransaction = (\<lambda>c. TxConfirmed),
     refetchChannel = (\<lambda>attempt. Fetched None)\<rparr>"

section \<open>Properties of \<^verbatim>\<open>sendMoney\<close>\<close>

lemma wei_to_gwei_round_down_floor:
  "0 \<le> x \<Longrightarrow> wei_to_gwei_round_down x = x div 10 ^ 9"
  by (simp add: wei_to_gwei_round_down_def)

text \<open>The reducer on an open channel, with the two guards merged into one test.\<close>

lemma sendMoney_Some:
  "sendMoney sg amount acc (Some ch) =
     (let amountToSend = (case amount of Some a \<Rightarrow> a | None \<Rightarrow> max 0 (payableBalance acc));
          budget = gwei_to_wei (payoutAmount acc + amountToSend);
          inc = wei_to_gwei_round_down (min (remainingInChannel ch) budget)
      in if isPositive (remainingInChannel ch) \<and> isPositive budget
         then (acc\<lparr>payoutAmount := min 0 (payoutAmount acc + amountToSend - inc),
                   payableBalance := payableBalance acc - inc\<rparr>,
               Some (signClaim sg (spent ch + min (remainingInChannel ch) budget) ch),
               Some (signClaim sg (spent ch + min (remainingInChannel ch) budget) ch))
         else (acc\<lparr>payoutAmount := payoutAmount acc + amountToSend\<rparr>, Some ch, None))"
  unfolding sendMoney_def Let_def spentFromChannel_def by simp

lemma sendMoney_None:
  "sendMoney sg amount acc None =
     (acc\<lparr>payoutAmount := payoutAmount acc
         + (case amount of Some a \<Rightarrow> a | None \<Rightarrow> max 0 (payableBalance acc))\<rparr>, None, None)"
  unfolding sendMoney_def Let_def by simp

lemma ex_sendMoney_nothing_owed:
  "sendMoney ex_signer None ex_account (Some ex_channel)
     = (ex_account, Some (ex_channel\<lparr>signature := Some ''0xsigned''\<rparr>),
        Some (ex_channel\<lparr>signature := Some ''0xsigned''\<rparr>))"
  by (simp add: sendMoney_Some Let_def ex_account_def ex_channel_def ex_signer_def
      signClaim_def remainingInChannel_def gwei_to_wei_def isPositive_def
      wei_to_gwei_round_down_def)

lemma ex_sendMoney_five:
  "sendMoney ex_signer (Some 5) ex_account (Some ex_channel)
     = (ex_account\<lparr>payableBalance := - 1\<rparr>,
        Some (ex_channel\<lparr>spent := 2500000000, signature := Some ''0xsigned''\<rparr>),
        Some (ex_channel\<lparr>spent := 2500000000, signature := Some ''0xsigned''\<rparr>))"
  by (simp add: sendMoney_Some Let_def ex_account_def ex_channel_def ex_signer_def
      signClaim_def remainingInChannel_def gwei_to_wei_def isPositive_def
      wei_to_gwei_round_down_def)

text \<open>
  C2. The claim: whenever \<^verbatim>\<open>sendMoney\<close> signs and sends a claim, the \<open>spent\<close> it
  writes is strictly greater than the prior \<open>spent\<close>. The code does not keep it: with
  nothing owed (payable balance and payout backlog both zero, no amount given) the
  settlement budget is zero, \<^verbatim>\<open>isPositive()\<close> holds of it, and a claim is signed and
  sent whose \<open>spent\<close> equals the prior one.
\<close>

theorem sendMoney_resends_same_spent:
  "(\<exists>acc' ch'. sendMoney ex_signer None ex_account (Some ex_channel) = (acc', Some ch', Some ch')
      \<and> spent ch' = spent ex_channel)
   \<and> \<not> (\<exists>acc' st' ch'. sendMoney ex_signer None ex_account (Some ex_channel) = (acc', st', Some ch')
      \<and> spent ex_channel < spent ch')"
  by (simp add: ex_sendMoney_nothing_owed)

text \<open>
  C3. In every \<^verbatim>\<open>sendMoney\<close> reduction that sends a claim, the amount to send is the
  given amount, or \<open>max 0 payableBalance\<close> when none is given; the payout amount first
  grows by it; the claim's increment in wei is the minimum of what remains in the channel
  and the payout amount in wei; the payable balance then drops by the increment in gwei,
  \<open>\<lfloor>increment_wei / 10\<^sup>9\<rfloor>\<close>, and the payout amount becomes
  \<open>min 0 (payoutAmount - increment_gwei)\<close>.
\<close>

theorem sendMoney_balances:
  assumes "sendMoney sg amount acc cachedChannel = (acc', st', Some sent)"
  shows "\<exists>ch. cachedChannel = Some ch \<and>
     (let amountToSend = (case amount of Some a \<Rightarrow> a | None \<Rightarrow> max 0 (payableBalance acc));
          payout1 = payoutAmount acc + amountToSend;
          increment_wei = min (channelValue ch - spent ch) (payout1 * 10 ^ 9);
          increment_gwei = increment_wei div 10 ^ 9
      in spent sent = spent ch + increment_wei
       \<and> payableBalance acc' = payableBalance acc - increment_gwei
       \<and> payoutAmount acc' = min 0 (payout1 - increment_gwei)
       \<and> receivableBalance acc' = receivableBalance acc)"
proof (cases cachedChannel)
  case None
  with assms show ?thesis by (simp add: sendMoney_None)
next
  case (Some ch)
  define budget where
    "budget = gwei_to_wei (payoutAmount acc
       + (case amount of Some a \<Rightarrow> a | None \<Rightarrow> max 0 (payableBalance acc)))"
  from assms Some have guards: "isPositive (remainingInChannel ch)" "isPositive budget"
    by (auto simp: sendMoney_Some Let_def budget_def split: if_splits)
  then have "0 \<le> min (remainingInChannel ch) budget"
    by (simp add: isPositive_def)
  then have floor: "wei_to_gwei_round_down (min (remainingInChannel ch) budget)
      = min (remainingInChannel ch) budget div 10 ^ 9"
    by (rule wei_to_gwei_round_down_floor)
  from assms Some guards have
    "acc' = acc\<lparr>payoutAmount := min 0 (payoutAmount acc
         + (case amount of Some a \<Rightarrow> a | None \<Rightarrow> max 0 (payableBalance acc))
         - wei_to_gwei_round_down (min (remainingInChannel ch) budget)),
       payableBalance := payableBalance acc
         - wei_to_gwei_round_down (min (remainingInChannel ch) budget)\<rparr>"
    and "sent = signClaim sg (spent ch + min (remainingInChannel ch) budget) ch"
    by (auto simp: sendMoney_Some Let_def budget_def)
  with floor Some show ?thesis
    by (simp add: Let_def signClaim_def budget_def remainingInChannel_def gwei_to_wei_def)
qed

theorem sendMoney_balances_witness:
  "\<exists>ch. Some ex_channel = Some ch \<and>
     spent (ex_channel\<lparr>spent := 2500000000, signature := Some ''0xsigned''\<rparr>)
        = spent ch + 1500000000
     \<and> payableBalance (ex_account\<lparr>payableBalance := - 1\<rparr>) = payableBalance ex_account - 1
     \<and> payoutAmount (ex_account\<lparr>payableBalance := - 1\<rparr>) = min 0 (payoutAmount ex_account + 5 - 1)"
  using sendMoney_balances [OF ex_sendMoney_five]
  by (simp add: Let_def ex_account_def ex_channel_def)

text \<open>
  C8. A \<^verbatim>\<open>sendMoney\<close> reduction on an outgoing channel with \<open>0 \<le> spent \<le> value\<close>
  leaves a channel with \<open>0 \<le> spent \<le> value\<close>. When a claim is sent, the new \<open>spent\<close> is
  the old one plus the minimum of \<open>value - spent\<close> and the settlement budget, and both
  of these have passed the guards, so they are not negative; otherwise the channel is
  the one before.
\<close>

theorem sendMoney_spent_within_value:
  assumes "sendMoney sg amount acc (Some ch) = (acc', st', sent)"
    and "0 \<le> spent ch" and "spent ch \<le> channelValue ch"
  shows "\<exists>ch'. st' = Some ch' \<and> 0 \<le> spent ch' \<and> spent ch' \<le> channelValue ch'
     \<and> channelValue ch' = channelValue ch
     \<and> (case sent of
          None \<Rightarrow> ch' = ch
        | Some s \<Rightarrow> s = ch'
            \<and> 0 \<le> channelValue ch - spent ch
            \<and> 0 \<le> gwei_to_wei (payoutAmount acc
                   + (case amount of Some a \<Rightarrow> a | None \<Rightarrow> max 0 (payableBalance acc)))
            \<and> spent ch' = spent ch + min (channelValue ch - spent ch)
                 (gwei_to_wei (payoutAmount acc
                   + (case amount of Some a \<Rightarrow> a | None \<Rightarrow> max 0 (payableBalance acc)))))"
proof -
  define budget where
    "budget = gwei_to_wei (payoutAmount acc
       + (case amount of Some a \<Rightarrow> a | None \<Rightarrow> max 0 (payableBalance acc)))"
  show ?thesis
  proof (cases "isPositive (remainingInChannel ch) \<and> isPositive budget")
    case True
    with assms(1) have "st' = Some (signClaim sg (spent ch + min (remainingInChannel ch) budget) ch)"
      and "sent = st'"
      by (auto simp: sendMoney_Some Let_def budget_def)
    with True assms(2,3) show ?thesis
      by (simp add: signClaim_def remainingInChannel_def isPositive_def budget_def)
  next
    case False
    with assms(1) have "st' = Some ch" and "sent = None"
      by (auto simp: sendMoney_Some Let_def budget_def)
    with assms(2,3) show ?thesis by simp
  qed
qed

theorem sendMoney_spent_within_value_witness:
  "0 \<le> spent ex_channel \<and> spent ex_channel \<le> channelValue ex_channel
   \<and> (\<exists>ch'. Some (ex_channel\<lparr>spent := 2500000000, signature := Some ''0xsigned''\<rparr>) = Some ch'
        \<and> 0 \<le> spent ch' \<and> spent ch' \<le> channelValue ch' \<and> spent ch' = spent ex_channel + 1500000000)"
proof -
  have lo: "0 \<le> spent ex_channel" and hi: "spent ex_channel \<le> channelValue ex_channel"
    by (simp_all add: ex_channel_def)
  from sendMoney_spent_within_value [OF ex_sendMoney_five lo hi] lo hi show ?thesis
    by (simp add: ex_channel_def)
qed

section \<open>Properties of \<^verbatim>\<open>linkEthereumAddress\<close>\<close>

lemma linkEthereumAddress_linked:
  "truthy (ethereumAddress acc) \<Longrightarrow> fst (linkEthereumAddress isAddress acc info) = acc"
  by (cases info) (simp_all add: linkEthereumAddress_def)

lemma linkAll_linked:
  "truthy (ethereumAddress acc) \<Longrightarrow> linkAll isAddress acc infos = acc"
  by (induction infos) (simp_all add: linkEthereumAddress_linked)

lemma ex_lower_same: "toLowerCase ''0xAb'' = toLowerCase ''0xaB''"
  by code_simp

lemma ex_lower_other: "toLowerCase ''0xAb'' \<noteq> toLowerCase ''0xCD''"
  by code_simp

text \<open>
  C9. Once an address is linked (the source's test is \<^verbatim>\<open>if (currentAddress)\<close>), no
  run of \<^verbatim>\<open>linkEthereumAddress\<close> calls changes the account: a valid address that
  differs from the linked one when both are lowercased is ignored, an equal one is a
  no-op. Whatever the account, a payload that is no JSON, has no address string or has
  an invalid address leaves it as it is, and a call changes the address only when none
  was linked, to the valid address it carries.
\<close>

theorem linkEthereumAddress_never_rebinds:
  "(truthy (ethereumAddress acc) \<longrightarrow> linkAll isAddress acc infos = acc)
   \<and> (truthy (ethereumAddress acc) \<and> isAddress a \<longrightarrow>
        linkEthereumAddress isAddress acc (AddressString a)
          = (acc, if toLowerCase (the (ethereumAddress acc)) = toLowerCase a
                  then SameAddress else AlreadyLinked))
   \<and> (info = InvalidJson \<or> info = NoAddressString
        \<or> (\<exists>b. info = AddressString b \<and> \<not> isAddress b) \<longrightarrow>
        fst (linkEthereumAddress isAddress acc info) = acc)
   \<and> (ethereumAddress (fst (linkEthereumAddress isAddress acc info)) \<noteq> ethereumAddress acc \<longrightarrow>
        \<not> truthy (ethereumAddress acc)
        \<and> (\<exists>b. info = AddressString b \<and> isAddress b
              \<and> linkEthereumAddress isAddress acc info = (acc\<lparr>ethereumAddress := Some b\<rparr>, Linked)))"
proof (intro conjI impI)
  assume "truthy (ethereumAddress acc)"
  then show "linkAll isAddress acc infos = acc" by (rule linkAll_linked)
next
  assume "truthy (ethereumAddress acc) \<and> isAddress a"
  then show "linkEthereumAddress isAddress acc (AddressString a)
      = (acc, if toLowerCase (the (ethereumAddress acc)) = toLowerCase a
              then SameAddress else AlreadyLinked)"
    by (simp add: linkEthereumAddress_def)
next
  assume "info = InvalidJson \<or> info = NoAddressString
    \<or> (\<exists>b. info = AddressString b \<and> \<not> isAddress b)"
  then show "fst (linkEthereumAddress isAddress acc info) = acc"
    by (auto simp: linkEthereumAddress_def)
next
  assume changed: "ethereumAddress (fst (linkEthereumAddress isAddress acc info))
    \<noteq> ethereumAddress acc"
  then show "\<not> truthy (ethereumAddress acc)"
    using linkEthereumAddress_linked [of acc isAddress info] by auto
  from changed show "\<exists>b. info = AddressString b \<and> isAddress b
      \<and> linkEthereumAddress isAddress acc info = (acc\<lparr>ethereumAddress := Some b\<rparr>, Linked)"
    by (cases info) (auto simp: linkEthereumAddress_def split: if_splits)
qed

theorem linkEthereumAddress_never_rebinds_witness:
  "truthy (ethereumAddress (ex_account\<lparr>ethereumAddress := Some ''0xAb''\<rparr>))
   \<and> ex_isAddress ''0xCD'' \<and> ex_isAddress ''0xaB'' \<and> \<not> ex_isAddress ''0x0''
   \<and> linkAll ex_isAddress (ex_account\<lparr>ethereumAddress := Some ''0xAb''\<rparr>)
        [AddressString ''0xCD'', AddressString ''0xaB'', InvalidJson, AddressString ''0x0'']
      = ex_account\<lparr>ethereumAddress := Some ''0xAb''\<rparr>
   \<and> linkEthereumAddress ex_isAddress (ex_account\<lparr>ethereumAddress := Some ''0xAb''\<rparr>)
        (AddressString ''0xCD'') = (ex_account\<lparr>ethereumAddress := Some ''0xAb''\<rparr>, AlreadyLinked)
   \<and> linkEthereumAddress ex_isAddress (ex_account\<lparr>ethereumAddress := Some ''0xAb''\<rparr>)
        (AddressString ''0xaB'') = (ex_account\<lparr>ethereumAddress := Some ''0xAb''\<rparr>, SameAddress)
   \<and> fst (linkEthereumAddress ex_isAddress ex_account (AddressString ''0x0'')) = ex_account
   \<and> ethereumAddress (fst (linkEthereumAddress ex_isAddress ex_account (AddressString ''0xCD'')))
        \<noteq> ethereumAddress ex_account
   \<and> linkEthereumAddress ex_isAddress ex_account (AddressString ''0xCD'')
        = (ex_account\<lparr>ethereumAddress := Some ''0xCD''\<rparr>, Linked)"
  using linkEthereumAddress_never_rebinds
      [of "ex_account\<lparr>ethereumAddress := Some ''0xAb''\<rparr>" ex_isAddress
          "[AddressString ''0xCD'', AddressString ''0xaB'', InvalidJson, AddressString ''0x0'']"
          "''0xCD''" InvalidJson]
    linkEthereumAddress_never_rebinds
      [of "ex_account\<lparr>ethereumAddress := Some ''0xAb''\<rparr>" ex_isAddress "[]"
          "''0xaB''" InvalidJson]
    linkEthereumAddress_never_rebinds
      [of ex_account ex_isAddress "[]" "''0xCD''" "AddressString ''0x0''"]
    linkEthereumAddress_never_rebinds
      [of ex_account ex_isAddress "[]" "''0xCD''" "AddressString ''0xCD''"]
    ex_lower_same ex_lower_other
  by (simp add: truthy_def ex_isAddress_def ex_account_def linkEthereumAddress_def)

section \<open>Properties of the \<^verbatim>\<open>ilp\<close> branch of \<^verbatim>\<open>handleData\<close>\<close>

lemma admitPrepare_Inr:
  "admitPrepare master acc amount = Inr acc1 \<Longrightarrow>
     acc1 = acc\<lparr>receivableBalance := receivableBalance acc + amount\<rparr>
     \<and> amount \<le> master_maxPacketAmount master
     \<and> receivableBalance acc + amount \<le> master_maxBalance master"
  by (auto simp: admitPrepare_def Let_def split: if_splits)

lemma ex_admit_five:
  "admitPrepare ex_master (ex_account\<lparr>receivableBalance := 995\<rparr>) 5
     = Inr (ex_account\<lparr>receivableBalance := 1000\<rparr>)"
  by (simp add: admitPrepare_def ex_master_def ex_account_def)

text \<open>
  C5, as the claim states it, fails for a packet above \<^verbatim>\<open>maxPacketAmount\<close>: that check
  comes first, so such a packet is rejected with F08 whatever the balance. With
  \<^verbatim>\<open>maxPacketAmount = 10\<close>, \<^verbatim>\<open>maxBalance = 1000\<close> and a receivable balance of 0, a
  packet of 2000 would exceed the maximum balance and gets F08, not T04; a packet of
  1000 would reach the maximum balance exactly and is not admitted.
\<close>

theorem handleData_max_balance_counterexample:
  "receivableBalance ex_account + 2000 > master_maxBalance ex_master
   \<and> handleData_ilp ex_master ex_account (Some 2000) (Returned IlpFulfill)
       = (ex_account, Some (IlpReject ''F08''))
   \<and> IlpReject ''F08'' \<noteq> IlpReject ''T04''
   \<and> receivableBalance ex_account + 1000 = master_maxBalance ex_master
   \<and> admitPrepare ex_master ex_account 1000 = Inl AmountTooLargeError
   \<and> handleData_ilp ex_master ex_account (Some 1000) (Returned IlpFulfill)
       = (ex_account, Some (IlpReject ''F08''))"
  by (simp add: handleData_ilp_def admitPrepare_def errorToReject_def truthy_def
      ex_master_def ex_account_def)

text \<open>
  C5, amended. For every incoming PREPARE whose amount \<open>a\<close> is at most
  \<^verbatim>\<open>maxPacketAmount\<close>: if \<open>receivableBalance + a > maxBalance\<close> the packet is rejected
  with T04, whatever the data handler would do, and the account is unchanged; if
  \<open>receivableBalance + a = maxBalance\<close> the packet is admitted and the receivable
  balance becomes \<open>maxBalance\<close>.
\<close>

theorem handleData_max_balance:
  assumes "amount \<le> master_maxPacketAmount master"
  shows "(receivableBalance acc + amount > master_maxBalance master \<longrightarrow>
            admitPrepare master acc amount = Inl InsufficientLiquidityError
            \<and> handleData_ilp master acc (Some amount) dataHandler
              = (acc, Some (IlpReject ''T04'')))
       \<and> (receivableBalance acc + amount = master_maxBalance master \<longrightarrow>
            admitPrepare master acc amount
              = Inr (acc\<lparr>receivableBalance := master_maxBalance master\<rparr>)
            \<and> handleData_ilp master acc (Some amount) dataHandler
              = handleReply (acc\<lparr>receivableBalance := master_maxBalance master\<rparr>) amount dataHandler)"
  using assms
  by (simp add: handleData_ilp_def admitPrepare_def errorToReject_def truthy_def Let_def)

theorem handleData_max_balance_witness:
  "(5::int) \<le> master_maxPacketAmount ex_master
   \<and> receivableBalance (ex_account\<lparr>receivableBalance := 995\<rparr>) + 5 = master_maxBalance ex_master
   \<and> admitPrepare ex_master (ex_account\<lparr>receivableBalance := 995\<rparr>) 5
       = Inr (ex_account\<lparr>receivableBalance := 1000\<rparr>)
   \<and> (6::int) \<le> master_maxPacketAmount ex_master
   \<and> receivableBalance (ex_account\<lparr>receivableBalance := 995\<rparr>) + 6 > master_maxBalance ex_master
   \<and> handleData_ilp ex_master (ex_account\<lparr>receivableBalance := 995\<rparr>) (Some 6) (Returned IlpFulfill)
       = (ex_account\<lparr>receivableBalance := 995\<rparr>, Some (IlpReject ''T04''))"
proof -
  have five: "(5::int) \<le> master_maxPacketAmount ex_master"
    and six: "(6::int) \<le> master_maxPacketAmount ex_master"
    by (simp_all add: ex_master_def)
  from handleData_max_balance [OF five, of "ex_account\<lparr>receivableBalance := 995\<rparr>" "Returned IlpFulfill"]
    handleData_max_balance [OF six, of "ex_account\<lparr>receivableBalance := 995\<rparr>" "Returned IlpFulfill"]
    five six
  show ?thesis by (simp add: ex_master_def ex_account_def)
qed

text \<open>
  C6. For every admitted PREPARE of amount \<open>a\<close> whose reply deserializes to a REJECT,
  the receivable balance (whatever it is when the reply arrives) is decremented by
  \<open>a\<close>; admission had incremented it by \<open>a\<close>, so the account is again the one before
  the PREPARE was admitted, and the REJECT is passed back.
\<close>

theorem handleData_reject_rolls_back:
  assumes "admitPrepare master acc amount = Inr acc1"
  shows "handleReply cur amount (Returned (IlpReject code))
           = (cur\<lparr>receivableBalance := receivableBalance cur - amount\<rparr>, Some (IlpReject code))
       \<and> receivableBalance acc1 = receivableBalance acc + amount
       \<and> handleData_ilp master acc (Some amount) (Returned (IlpReject code))
           = (acc, Some (IlpReject code))"
  using assms admitPrepare_Inr [OF assms]
  by (simp add: handleData_ilp_def handleReply_def)

theorem handleData_reject_rolls_back_witness:
  "handleReply (ex_account\<lparr>receivableBalance := 1000\<rparr>) 5 (Returned (IlpReject ''F99''))
     = (ex_account\<lparr>receivableBalance := 995\<rparr>, Some (IlpReject ''F99''))
   \<and> handleData_ilp ex_master (ex_account\<lparr>receivableBalance := 995\<rparr>) (Some 5)
       (Returned (IlpReject ''F99''))
     = (ex_account\<lparr>receivableBalance := 995\<rparr>, Some (IlpReject ''F99''))"
  using handleData_reject_rolls_back [OF ex_admit_five, of "ex_account\<lparr>receivableBalance := 1000\<rparr>" "''F99''"]
  by (simp add: ex_account_def)

text \<open>
  C7, as the claim states it, fails in its first part for some thrown values: the
  \<^verbatim>\<open>catch\<close> calls \<^verbatim>\<open>errorToReject\<close>, which throws itself on an \<^verbatim>\<open>ilpErrorCode\<close>
  that is not three bytes long and on \<^verbatim>\<open>null\<close> or \<^verbatim>\<open>undefined\<close>. For an admitted
  PREPARE of 5 whose data handler throws an error with the code \<^verbatim>\<open>ABCD\<close>, or throws
  \<^verbatim>\<open>undefined\<close>, \<^verbatim>\<open>handleData\<close> sends no reject back; the debit stays.
\<close>

theorem handleData_exception_counterexample:
  "admitPrepare ex_master (ex_account\<lparr>receivableBalance := 995\<rparr>) 5
     = Inr (ex_account\<lparr>receivableBalance := 1000\<rparr>)
   \<and> handleData_ilp ex_master (ex_account\<lparr>receivableBalance := 995\<rparr>) (Some 5)
       (Thrown (ThrownObject (Some ''ABCD'')))
     = (ex_account\<lparr>receivableBalance := 1000\<rparr>, None)
   \<and> handleData_ilp ex_master (ex_account\<lparr>receivableBalance := 995\<rparr>) (Some 5)
       (Thrown ThrownNullish)
     = (ex_account\<lparr>receivableBalance := 1000\<rparr>, None)"
  by (simp add: handleData_ilp_def handleReply_def errorToReject_def truthy_def ex_admit_five)

text \<open>
  C7, amended. For every admitted PREPARE of amount \<open>a\<close> for which the data handler
  throws, or returns bytes that do not deserialize, the receivable balance stays
  incremented by \<open>a\<close>: the debit is not rolled back. When the bytes do not deserialize,
  \<^verbatim>\<open>handleData\<close> answers with a synthesized F00 REJECT; when the handler throws an
  error whose \<^verbatim>\<open>ilpErrorCode\<close> is absent or empty it answers with a synthesized F00
  REJECT, and when the code is three bytes long with a synthesized REJECT of that code.
\<close>

theorem handleData_exception_keeps_debit:
  assumes "admitPrepare master acc amount = Inr acc1"
  shows "fst (handleData_ilp master acc (Some amount) (Thrown err))
           = acc\<lparr>receivableBalance := receivableBalance acc + amount\<rparr>
       \<and> handleData_ilp master acc (Some amount) ReturnedUnparsable
           = (acc\<lparr>receivableBalance := receivableBalance acc + amount\<rparr>, Some (IlpReject ''F00''))
       \<and> (\<not> truthy code \<longrightarrow>
            handleData_ilp master acc (Some amount) (Thrown (ThrownObject code))
              = (acc\<lparr>receivableBalance := receivableBalance acc + amount\<rparr>,
                 Some (IlpReject ''F00'')))
       \<and> (length c = 3 \<longrightarrow>
            handleData_ilp master acc (Some amount) (Thrown (ThrownObject (Some c)))
              = (acc\<lparr>receivableBalance := receivableBalance acc + amount\<rparr>,
                 Some (IlpReject c)))"
proof -
  from admitPrepare_Inr [OF assms]
  have acc1: "acc1 = acc\<lparr>receivableBalance := receivableBalance acc + amount\<rparr>" by simp
  have run: "handleData_ilp master acc (Some amount) r = handleReply acc1 amount r" for r
    using assms by (simp add: handleData_ilp_def)
  have kept: "fst (handleReply acc1 amount (Thrown err)) = acc1"
    by (simp add: handleReply_def)
  have unparsable: "handleReply acc1 amount ReturnedUnparsable = (acc1, Some (IlpReject ''F00''))"
    by (simp add: handleReply_def errorToReject_def truthy_def)
  have no_code: "handleReply acc1 amount (Thrown (ThrownObject code))
      = (acc1, Some (IlpReject ''F00''))" if "\<not> truthy code"
    using that by (simp add: handleReply_def errorToReject_def)
  have with_code: "handleReply acc1 amount (Thrown (ThrownObject (Some c)))
      = (acc1, Some (IlpReject c))" if "length c = 3"
    using that by (auto simp: handleReply_def errorToReject_def truthy_def)
  from kept unparsable no_code with_code show ?thesis
    unfolding run acc1 [symmetric] by simp
qed

theorem handleData_exception_keeps_debit_witness:
  "\<not> truthy None \<and> length ''T99'' = 3
   \<and> fst (handleData_ilp ex_master (ex_account\<lparr>receivableBalance := 995\<rparr>) (Some 5)
        (Thrown (ThrownObject (Some ''ABCD''))))
     = ex_account\<lparr>receivableBalance := 1000\<rparr>
   \<and> handleData_ilp ex_master (ex_account\<lparr>receivableBalance := 995\<rparr>) (Some 5)
        ReturnedUnparsable
     = (ex_account\<lparr>receivableBalance := 1000\<rparr>, Some (IlpReject ''F00''))
   \<and> handleData_ilp ex_master (ex_account\<lparr>receivableBalance := 995\<rparr>) (Some 5)
        (Thrown (ThrownObject None))
     = (ex_account\<lparr>receivableBalance := 1000\<rparr>, Some (IlpReject ''F00''))
   \<and> handleData_ilp ex_master (ex_account\<lparr>receivableBalance := 995\<rparr>) (Some 5)
        (Thrown (ThrownObject (Some ''T99'')))
     = (ex_account\<lparr>receivableBalance := 1000\<rparr>, Some (IlpReject ''T99''))"
  using handleData_exception_keeps_debit
      [OF ex_admit_five, of "ThrownObject (Some ''ABCD'')" None "''T99''"]
  by (simp add: truthy_def ex_account_def)

section \<open>Properties of \<^verbatim>\<open>validateClaim\<close>\<close>

lemma creditClaim_store:
  "creditClaim env claim cachedChannel uc st = (st', res) \<Longrightarrow> store st' = store st"
  by (auto simp: creditClaim_def Let_def split: if_splits)

text \<open>One attempt of \<^verbatim>\<open>validateClaim\<close>: it retries, or ends without touching
  anything, or links the channel and credits the claim, or credits the claim on the
  channel linked before.\<close>

lemma validateClaim_attempt_disj:
  assumes "validateClaim env master claim cachedChannel attempts st = (st', res)"
  shows "(attempts \<le> 20
            \<and> validateClaim env master claim cachedChannel (attempts + 1) st = (st', res))
       \<or> (st' = st \<and> (res = Inr cachedChannel \<or> res = Inr None
            \<or> res = Inl FetchError \<or> res = Inl StoreError))
       \<or> (\<exists>uc. cachedChannel = None \<and> store st (channelKey claim) = None
             \<and> creditClaim env claim None uc
                 (st\<lparr>store := (store st)(channelKey claim \<mapsto> accountName (account st))\<rparr>)
               = (st', res))
       \<or> (\<exists>cc uc. cachedChannel = Some cc \<and> creditClaim env claim (Some cc) uc st = (st', res))"
proof (cases "attempts > 20")
  case True
  with assms show ?thesis by (subst (asm) validateClaim.simps) simp
next
  case False
  show ?thesis
  proof (cases cachedChannel)
    case None
    with assms False show ?thesis
      by (subst (asm) validateClaim.simps)
         (auto split: fetch_result.splits option.splits if_splits)
  next
    case (Some cc)
    with assms False show ?thesis
      by (subst (asm) validateClaim.simps)
         (auto split: fetch_result.splits option.splits if_splits)
  qed
qed

lemma validateClaim_attempt:
  assumes "validateClaim env master claim cachedChannel attempts st = (st', res)"
  obtains
    (retry) "attempts \<le> 20"
      "validateClaim env master claim cachedChannel (attempts + 1) st = (st', res)"
  | (same) "st' = st"
      "res = Inr cachedChannel \<or> res = Inr None \<or> res = Inl FetchError \<or> res = Inl StoreError"
  | (link) uc where "cachedChannel = None" "store st (channelKey claim) = None"
      "creditClaim env claim None uc
         (st\<lparr>store := (store st)(channelKey claim \<mapsto> accountName (account st))\<rparr>)
       = (st', res)"
  | (credit) cc uc where "cachedChannel = Some cc"
      "creditClaim env claim (Some cc) uc st = (st', res)"
  using validateClaim_attempt_disj [OF assms] by (elim disjE conjE exE) simp_all

lemma validateClaim_store:
  "validateClaim env master claim cachedChannel attempts st = (st', res) \<Longrightarrow>
     store st' = store st
     \<or> (cachedChannel = None \<and> store st (channelKey claim) = None
        \<and> store st' = (store st)(channelKey claim \<mapsto> accountName (account st)))"
proof (induction "21 - attempts" arbitrary: attempts)
  case 0
  then show ?case by (subst (asm) validateClaim.simps) simp
next
  case (Suc n)
  from Suc.prems show ?case
  proof (cases rule: validateClaim_attempt)
    case retry
    with Suc.hyps(1) [of "attempts + 1"] Suc.hyps(2) show ?thesis by simp
  next
    case same
    then show ?thesis by simp
  next
    case (link uc)
    from creditClaim_store [OF link(3)] link(1,2) show ?thesis by simp
  next
    case (credit cc uc)
    from creditClaim_store [OF credit(2)] show ?thesis by simp
  qed
qed

lemma validateClaim_already_linked:
  "validateClaim env master claim None attempts st = (st', res) \<Longrightarrow>
   store st (channelKey claim) = Some linked \<Longrightarrow>
     st' = st \<and> (res = Inr None \<or> res = Inl FetchError \<or> res = Inl StoreError)"
proof (induction "21 - attempts" arbitrary: attempts)
  case 0
  then show ?case by (subst (asm) validateClaim.simps) simp
next
  case (Suc n)
  from Suc.prems(1) show ?case
  proof (cases rule: validateClaim_attempt)
    case retry
    with Suc.hyps(1) [of "attempts + 1"] Suc.hyps(2) Suc.prems(2) show ?thesis by simp
  next
    case same
    then show ?thesis by auto
  next
    case (link uc)
    with Suc.prems(2) show ?thesis by simp
  next
    case (credit cc uc)
    then show ?thesis by simp
  qed
qed

lemma ex_lower_contract: "toLowerCase ''0xC0'' = toLowerCase ''0xc0''"
  by code_simp

lemma ex_lower_receiver: "toLowerCase ''0xBb'' = toLowerCase ''0xbB''"
  by code_simp

lemma ex_validateClaim_linked_elsewhere:
  "validateClaim ex_env ex_master (ex_claim 5) None 0 ex_state_linked
     = (ex_state_linked, Inr None)"
  by (subst validateClaim.simps)
     (simp add: ex_env_def ex_master_def ex_claim_def ex_state_linked_def ex_channel_def
        isNegative_def channelKey_def ex_lower_contract ex_lower_receiver)

lemma ex_validateClaim_first_zero:
  "validateClaim ex_env ex_master (ex_claim 0) None 0 ex_state
     = (ex_state\<lparr>store := [''0x01:incoming-channel'' \<mapsto> ''bob''],
          moneyHandlerCalls := [0], watcher := True\<rparr>,
        Inr (Some (ex_channel\<lparr>spent := 0\<rparr>)))"
  by (subst validateClaim.simps)
     (simp add: ex_env_def ex_master_def ex_claim_def ex_state_def ex_channel_def
        ex_account_def isNegative_def isPositive_def channelKey_def creditClaim_def
        wei_to_gwei_round_down_def ex_lower_contract ex_lower_receiver)

lemma ex_validateClaim_replay:
  "validateClaim ex_env ex_master (ex_claim 1000000000) (Some ex_channel) 0 ex_state
     = (ex_state\<lparr>moneyHandlerCalls := [0], watcher := True\<rparr>, Inr (Some ex_channel))"
  by (subst validateClaim.simps)
     (simp add: ex_env_def ex_master_def ex_claim_def ex_state_def ex_channel_def
        ex_account_def isNegative_def isPositive_def channelKey_def creditClaim_def
        wei_to_gwei_round_down_def)

text \<open>
  C1. The claim: when the claim increment (\<open>min claim.value channel.value\<close> minus the
  cached \<open>spent\<close>, or minus 0 with no cached channel) is zero, \<^verbatim>\<open>moneyHandler\<close> is not
  invoked. The code invokes it with the amount 0, since \<^verbatim>\<open>isPositive()\<close> holds of a
  zero increment: for a first claim of value 0 on a channel not linked before, and for a
  replay of the cached claim. The receivable balance keeps its value in both runs, and
  the replay gives back the cached channel.
\<close>

theorem validateClaim_zero_increment_calls_moneyHandler:
  "moneyHandlerCalls ex_state = []
   \<and> moneyHandlerCalls (fst (validateClaim ex_env ex_master (ex_claim 0) None 0 ex_state)) = [0]
   \<and> account (fst (validateClaim ex_env ex_master (ex_claim 0) None 0 ex_state)) = account ex_state
   \<and> snd (validateClaim ex_env ex_master (ex_claim 0) None 0 ex_state)
       = Inr (Some (ex_channel\<lparr>spent := 0\<rparr>))
   \<and> moneyHandlerCalls (fst (validateClaim ex_env ex_master (ex_claim 1000000000)
        (Some ex_channel) 0 ex_state)) = [0]
   \<and> account (fst (validateClaim ex_env ex_master (ex_claim 1000000000)
        (Some ex_channel) 0 ex_state)) = account ex_state
   \<and> snd (validateClaim ex_env ex_master (ex_claim 1000000000) (Some ex_channel) 0 ex_state)
       = Inr (Some ex_channel)"
  unfolding ex_validateClaim_first_zero ex_validateClaim_replay
  by (simp add: ex_state_def)

text \<open>
  C4. In the store, the key \<^verbatim>\<open><channelId>:incoming-channel\<close> holds at most one account
  name and \<^verbatim>\<open>validateClaim\<close> never replaces one: it leaves the store as it is, or it
  writes its own account name under the key of the claim's channel, and that only when
  no channel is cached and the key was absent. On a channel not cached, when the key
  already holds an account name (a different one in particular), the claim is rejected
  (the reducer returns no channel, or throws when the chain or the store cannot be
  read) and nothing changes.
\<close>

theorem validateClaim_channel_link:
  assumes "validateClaim env master claim cachedChannel attempts st = (st', res)"
  shows "(store st' = store st
          \<or> (cachedChannel = None \<and> store st (channelKey claim) = None
             \<and> store st' = (store st)(channelKey claim \<mapsto> accountName (account st))))
       \<and> (\<forall>k a. store st k = Some a \<longrightarrow> store st' k = Some a)
       \<and> (\<forall>linked. cachedChannel = None \<and> store st (channelKey claim) = Some linked \<longrightarrow>
             st' = st \<and> (res = Inr None \<or> res = Inl FetchError \<or> res = Inl StoreError))"
proof (intro conjI allI impI)
  from validateClaim_store [OF assms]
  show link: "store st' = store st
      \<or> (cachedChannel = None \<and> store st (channelKey claim) = None
         \<and> store st' = (store st)(channelKey claim \<mapsto> accountName (account st)))" .
  fix k a
  assume "store st k = Some a"
  with link show "store st' k = Some a" by auto
next
  fix linked
  assume "cachedChannel = None \<and> store st (channelKey claim) = Some linked"
  with assms validateClaim_already_linked [of env master claim attempts st st' res linked]
  show "st' = st" and "res = Inr None \<or> res = Inl FetchError \<or> res = Inl StoreError"
    by simp_all
qed

theorem validateClaim_channel_link_witness:
  "store ex_state_linked (channelKey (ex_claim 5)) = Some ''alice''
   \<and> accountName (account ex_state_linked) = ''bob''
   \<and> validateClaim ex_env ex_master (ex_claim 5) None 0 ex_state_linked
       = (ex_state_linked, Inr None)
   \<and> store (fst (validateClaim ex_env ex_master (ex_claim 5) None 0 ex_state_linked))
       (channelKey (ex_claim 5)) = Some ''alice''"
  using validateClaim_channel_link [OF ex_validateClaim_linked_elsewhere]
    ex_validateClaim_linked_elsewhere
  by (simp add: ex_state_linked_def ex_claim_def channelKey_def ex_account_def)

section \<open>Properties of \<^verbatim>\<open>claimIfProfitable\<close>\<close>

text \<open>
  C10, as the claim states it, fails in its last part: the reducer returns the channel
  as \<^verbatim>\<open>updateChannel\<close> refreshed it, not the cached one. With \<open>spent = 100000\<close>, a fee
  of \<open>200000\<close> and no \<^verbatim>\<open>authorize\<close>, no transaction is sent, but the cached channel is
  replaced by the refreshed one, whose value the chain reports as larger.
\<close>

theorem claimIfProfitable_unprofitable_counterexample:
  "prepareTransaction ex_claim_env (ex_channel\<lparr>spent := 100000, channelValue := 5000000000\<rparr>)
     = Some 200000
   \<and> (200000::int) \<ge> spent (ex_channel\<lparr>spent := 100000\<rparr>)
   \<and> claimIfProfitable ex_claim_env False None (Some (ex_channel\<lparr>spent := 100000\<rparr>))
       = (False, Inr (Some (ex_channel\<lparr>spent := 100000, channelValue := 5000000000\<rparr>)))
   \<and> ex_channel\<lparr>spent := 100000, channelValue := 5000000000\<rparr> \<noteq> ex_channel\<lparr>spent := 100000\<rparr>"
  by (simp add: claimIfProfitable_def ex_claim_env_def ex_channel_def truthy_def)

text \<open>
  C10, amended. In every \<^verbatim>\<open>claimIfProfitable\<close> reduction on a cached channel with a
  signature, where the refresh finds the channel, no \<^verbatim>\<open>authorize\<close> callback is given
  and the estimated fee is at least the channel's \<open>spent\<close>, the claim transaction is not
  sent and the reducer returns the refreshed channel: the cached channel is unchanged
  when the refresh gives the cached channel back.
\<close>

theorem claimIfProfitable_unprofitable:
  assumes "truthy (signature cc)"
    and "updateChannel env cc = Fetched (Some uc)"
    and "prepareTransaction env uc = Some txFee"
    and "txFee \<ge> spent uc"
  shows "claimIfProfitable env requireDisputed None (Some cc) = (False, Inr (Some uc))
       \<and> (uc = cc \<longrightarrow>
            claimIfProfitable env requireDisputed None (Some cc) = (False, Inr (Some cc)))"
proof -
  from assms have "claimIfProfitable env requireDisputed None (Some cc) = (False, Inr (Some uc))"
    by (simp add: claimIfProfitable_def)
  then show ?thesis by simp
qed

theorem claimIfProfitable_unprofitable_witness:
  "truthy (signature (ex_channel\<lparr>spent := 100000\<rparr>))
   \<and> updateChannel (ex_claim_env\<lparr>updateChannel := (\<lambda>c. Fetched (Some c))\<rparr>)
        (ex_channel\<lparr>spent := 100000\<rparr>) = Fetched (Some (ex_channel\<lparr>spent := 100000\<rparr>))
   \<and> prepareTransaction (ex_claim_env\<lparr>updateChannel := (\<lambda>c. Fetched (Some c))\<rparr>)
        (ex_channel\<lparr>spent := 100000\<rparr>) = Some 200000
   \<and> (200000::int) \<ge> spent (ex_channel\<lparr>spent := 100000\<rparr>)
   \<and> claimIfProfitable (ex_claim_env\<lparr>updateChannel := (\<lambda>c. Fetched (Some c))\<rparr>) False None
        (Some (ex_channel\<lparr>spent := 100000\<rparr>))
       = (False, Inr (Some (ex_channel\<lparr>spent := 100000\<rparr>)))"
proof -
  have sig: "truthy (signature (ex_channel\<lparr>spent := 100000\<rparr>))"
    by (simp add: truthy_def ex_channel_def)
  have upd: "updateChannel (ex_claim_env\<lparr>updateChannel := (\<lambda>c. Fetched (Some c))\<rparr>)
      (ex_channel\<lparr>spent := 100000\<rparr>) = Fetched (Some (ex_channel\<lparr>spent := 100000\<rparr>))"
    by simp
  have fee: "prepareTransaction (ex_claim_env\<lparr>updateChannel := (\<lambda>c. Fetched (Some c))\<rparr>)
      (ex_channel\<lparr>spent := 100000\<rparr>) = Some 200000"
    by (simp add: ex_claim_env_def)
  have ge: "(200000::int) \<ge> spent (ex_channel\<lparr>spent := 100000\<rparr>)"
    by simp
  from claimIfProfitable_unprofitable [OF sig upd fee ge, of False] sig upd fee ge
  show ?thesis by simp
qed

end
